theory Spec2Isabelle
  imports Main "HOL-Library.Finite_Map"
begin

section \<open>Byte strings and slices\<close>

text \<open>
  A Go \<^verbatim>\<open>[]byte\<close> or \<^verbatim>\<open>string\<close> is a list of 8-bit characters.
  \<^verbatim>\<open>s[a:b]\<close> with \<open>a \<le> b \<le> len(s)\<close> is \<open>slice s a b\<close>;
  \<^verbatim>\<open>s[a:]\<close> is \<open>drop a s\<close>.
\<close>

definition dquote :: char where
  "dquote = CHR 0x22"

definition colon :: char where
  "colon = CHR 0x3A"

definition slice :: "string \<Rightarrow> nat \<Rightarrow> nat \<Rightarrow> string" where
  "slice s a b = take (b - a) (drop a s)"

text \<open>
  \<^verbatim>\<open>bytes.IndexByte(s, c)\<close>: the index of the first \<open>c\<close> in \<open>s\<close>, or -1
  (here \<open>None\<close>) when there is none.
\<close>

definition IndexByte :: "string \<Rightarrow> char \<Rightarrow> nat option" where
  "IndexByte s c = (if c \<in> set s then Some (length (takeWhile (\<lambda>x. x \<noteq> c) s)) else None)"

section \<open>Key extraction (wsclient: parse)\<close>

text \<open>
  The loop of \<^verbatim>\<open>parse\<close>, with the loop variables \<open>index\<close> and \<open>keys\<close> as
  arguments. Each round looks for the opening quote from \<open>index\<close>, then for the closing
  quote, appends the bytes between them when the two bytes starting at the closing quote
  are a quote and a colon, and goes on after the closing quote.
\<close>

function parse_loop :: "string \<Rightarrow> nat \<Rightarrow> string list \<Rightarrow> string list" where
  "parse_loop rawData index keys =
     (if index < length rawData then
        (case IndexByte (drop index rawData) dquote of
           None \<Rightarrow> keys
         | Some keyStart \<Rightarrow>
             (case IndexByte (drop (index + keyStart + 1) rawData) dquote of
                None \<Rightarrow> keys
              | Some keyEnd \<Rightarrow>
                  parse_loop rawData (index + keyStart + 1 + keyEnd + 1)
                    (if index + keyStart + 1 + keyEnd + 1 < length rawData
                        \<and> slice rawData (index + keyStart + 1 + keyEnd)
                             (index + keyStart + 1 + keyEnd + 2) = [dquote, colon]
                     then keys @ [slice rawData (index + keyStart + 1)
                                    (index + keyStart + 1 + keyEnd)]
                     else keys)))
      else keys)"
  by pat_completeness auto
termination
  by (relation "measure (\<lambda>(rawData, index, keys). length rawData - index)") auto

declare parse_loop.simps [simp del]

definition parse :: "string \<Rightarrow> string list" where
  "parse raw = parse_loop raw 0 []"

section \<open>Messages (package messages) and the JSON decoder\<close>

text \<open>
  The rows of a response (\<^verbatim>\<open>map[string]interface{}\<close>) are not looked into by the
  client: their type is the parameter \<open>'r\<close>. A slice is a list; a nil slice and an
  empty slice, which the client tells apart nowhere in what follows, are both the empty
  list. The integers of an envelope are Go \<^verbatim>\<open>int\<close>s; the client compares them and
  converts them to strings, and does no arithmetic on them.

  The JSON decoder (Go's \<^verbatim>\<open>encoding/json\<close>) is outside the repository; the
  functions that call it take its behaviour as a parameter, one field per target type
  of \<^verbatim>\<open>json.Unmarshal\<close>. A call yields the returned error (\<open>None\<close> for nil) and
  what the target holds afterwards. For a pointer target (\<^verbatim>\<open>*messages.Response\<close>,
  \<^verbatim>\<open>*messages.LogMessage\<close>) the second component is \<open>None\<close> while the pointer is
  still nil: \<^verbatim>\<open>Unmarshal\<close> validates the syntax of its input before it touches the
  target, and decoding the literal \<^verbatim>\<open>null\<close> leaves a nil pointer nil.
\<close>

record 'r Response =
  MessageType :: string
  RequestID :: string
  BatchSerial :: int
  TotalBatches :: int
  SplitSerial :: int
  TotalSplitSerials :: int
  CacheInfo :: string
  SubBatchSerial :: int
  TotalSubBatches :: int
  Data :: "'r list"
  Keys :: "string list"

record LogMessage =
  LogMessageType :: string
  LogLevel :: string
  LogRequestID :: string
  LogMessageText :: string

record Payload =
  PayloadMessageType :: string
  SQL :: string
  PayloadRequestID :: string

datatype MessageType = DATA | INFO | LOG_MESSAGE

fun MessageType_String :: "MessageType \<Rightarrow> string" where
  "MessageType_String DATA = ''DATA''"
| "MessageType_String INFO = ''INFO''"
| "MessageType_String LOG_MESSAGE = ''LOG_MESSAGE''"

text \<open>\<^verbatim>\<open>messages.Response{}\<close>: every field at its zero value.\<close>

definition Response_zero :: "'r Response" where
  "Response_zero =
     \<lparr>MessageType = [], RequestID = [], BatchSerial = 0, TotalBatches = 0, SplitSerial = 0,
      TotalSplitSerials = 0, CacheInfo = [], SubBatchSerial = 0, TotalSubBatches = 0,
      Data = [], Keys = []\<rparr>"

record 'r json_codec =
  unmarshalResponse :: "string \<Rightarrow> string option \<times> 'r Response option"
  unmarshalLogMessage :: "string \<Rightarrow> string option \<times> LogMessage option"
  unmarshalData :: "string \<Rightarrow> string option \<times> string list"
  unmarshalRaw :: "string \<Rightarrow> string option \<times> string"

section \<open>Key extraction (wsclient: extractKeys)\<close>

text \<open>
  \<^verbatim>\<open>extractKeys\<close>: decode the \<^verbatim>\<open>data\<close> array as raw elements, decode the first
  element as a raw message, and scan it. A nil slice of keys is the empty list.
\<close>

definition extractKeys :: "'r json_codec \<Rightarrow> string \<Rightarrow> string list" where
  "extractKeys J jsonData =
     (case unmarshalData J jsonData of
        (Some err, _) \<Rightarrow> []
      | (None, data) \<Rightarrow>
          (if length data = 0 then []
           else (case unmarshalRaw J (hd data) of
                   (Some err, _) \<Rightarrow> []
                 | (None, firstEntry) \<Rightarrow> parse firstEntry)))"

subsection \<open>The scan as the specification words it\<close>

text \<open>
  The bytes are cut at every double quote. The pieces alternate: outside quotes, between
  a pair of quotes, outside, and so on. A piece between a pair of quotes is a key when the
  piece after its closing quote starts with a colon.
\<close>

fun split_on :: "char \<Rightarrow> string \<Rightarrow> string list" where
  "split_on c [] = [[]]"
| "split_on c (x # xs) =
     (if x = c then [] # split_on c xs
      else (x # hd (split_on c xs)) # tl (split_on c xs))"

fun quoted_keys :: "string list \<Rightarrow> string list" where
  "quoted_keys (before # key # after # rest) =
     (if take 1 after = [colon] then [key] else []) @ quoted_keys (after # rest)"
| "quoted_keys _ = []"

definition scan_keys_spec :: "string \<Rightarrow> string list" where
  "scan_keys_spec raw = quoted_keys (split_on dquote raw)"

section \<open>Integers as strings\<close>

text \<open>
  The client keys the fragments of a response by \<^verbatim>\<open>string(response.SubBatchSerial)\<close>
  and reads them back by \<^verbatim>\<open>string(rune(i))\<close>. In Go the conversion of an integer to a
  string gives the UTF-8 encoding of the code point with that number, and the encoding of
  U+FFFD for a number that is no code point (negative, a surrogate half, above U+10FFFF).
  \<open>encoderune\<close> follows the encoder of the Go runtime, with the shifts and masks written
  as division and remainder.
\<close>

definition RuneError :: int where
  "RuneError = 0xFFFD"

definition MaxRune :: int where
  "MaxRune = 0x10FFFF"

definition encode3 :: "int \<Rightarrow> string" where
  "encode3 r = [char_of (0xE0 + r div 4096), char_of (0x80 + (r div 64) mod 64),
                char_of (0x80 + r mod 64)]"

definition encoderune :: "int \<Rightarrow> string" where
  "encoderune r =
     (if 0 \<le> r \<and> r \<le> 0x7F then [char_of r]
      else if 0 \<le> r \<and> r \<le> 0x7FF then [char_of (0xC0 + r div 64), char_of (0x80 + r mod 64)]
      else if r < 0 \<or> MaxRune < r \<or> (0xD800 \<le> r \<and> r \<le> 0xDFFF) then encode3 RuneError
      else if r \<le> 0xFFFF then encode3 r
      else [char_of (0xF0 + r div 262144), char_of (0x80 + (r div 4096) mod 64),
            char_of (0x80 + (r div 64) mod 64), char_of (0x80 + r mod 64)])"

text \<open>\<^verbatim>\<open>rune(i)\<close>: an \<^verbatim>\<open>int\<close> cut to 32 bits, signed.\<close>

definition rune :: "int \<Rightarrow> int" where
  "rune i = (i + 2 ^ 31) mod 2 ^ 32 - 2 ^ 31"

text \<open>\<^verbatim>\<open>string(v)\<close> for an \<^verbatim>\<open>int\<close> \<open>v\<close>, and \<^verbatim>\<open>string(r)\<close> for a rune.\<close>

definition string_of_int :: "int \<Rightarrow> string" where
  "string_of_int v = (if rune v \<noteq> v then encoderune RuneError else encoderune v)"

definition string_of_rune :: "int \<Rightarrow> string" where
  "string_of_rune r = encoderune r"


section \<open>The client state\<close>

text \<open>
  A value held by the results table (\<^verbatim>\<open>interface{}\<close>): nil (\<open>ENil\<close>), an
  error with its text (\<open>EError\<close>), or the concurrent map of the fragments of one response
  (\<open>EMap\<close>). The fragments are pointers
  (\<^verbatim>\<open>*messages.Response\<close>), here addresses into the heap of the state, so that a write
  through one pointer is seen through every other.
\<close>

type_synonym addr = nat

datatype entry = ENil | EError string | EMap "(string, addr) fmap"

text \<open>\<^verbatim>\<open>Count()\<close> of a concurrent map: the number of its keys.\<close>

definition Count :: "(string, 'v) fmap \<Rightarrow> nat" where
  "Count m = card (fmdom' m)"

text \<open>
  \<^verbatim>\<open>WSSClient\<close>. A connection and a channel are known by a number. \<open>idleTimer\<close>
  holds the duration the pending timer was last armed with, in nanoseconds
  (\<^verbatim>\<open>time.Duration\<close>, 64 bits). \<open>messageChannel\<close> holds the frames handed to the
  channel and not yet taken by the sender. Beside the fields of the struct the state
  carries the heap of responses, the next free address and channel number, and a record
  of what was done to the outside: the connections closed, the channels closed, the
  frames written.
\<close>

record 'r WSSClient =
  URL :: string
  Conn :: "nat option"
  idleTimeoutMinutes :: int
  idleTimer :: "int option"
  SignedHeader :: "(string \<times> string) list"
  Error :: string
  messageChannel :: "string list"
  stopChannel :: "nat option"
  resultsMap :: "(string, entry) fmap"
  heap :: "addr \<Rightarrow> 'r Response"
  nextAddr :: addr
  nextChan :: nat
  closedConns :: "nat list"
  closedChans :: "nat list"
  written :: "string list"

text \<open>The constants of package \<^verbatim>\<open>constants\<close> that the client reads.\<close>

record constants =
  IdleTimeoutMinutes :: int
  TimeOutWaintForResponse :: int
  WssUrl :: string

definition Minute :: int where
  "Minute = 60 * 1000000000"

text \<open>A product of two durations, wrapped to 64 bits, signed.\<close>

definition wrap64 :: "int \<Rightarrow> int" where
  "wrap64 i = (i + 2 ^ 63) mod 2 ^ 64 - 2 ^ 63"

text \<open>\<^verbatim>\<open>wsc.resultsMap.Set\<close> and \<^verbatim>\<open>wsc.resultsMap.Get\<close>.\<close>

definition resultsMap_Set :: "string \<Rightarrow> entry \<Rightarrow> 'r WSSClient \<Rightarrow> 'r WSSClient" where
  "resultsMap_Set k v wsc = wsc\<lparr>resultsMap := fmupd k v (resultsMap wsc)\<rparr>"

definition resultsMap_Get :: "'r WSSClient \<Rightarrow> string \<Rightarrow> entry option" where
  "resultsMap_Get wsc k = fmlookup (resultsMap wsc) k"

text \<open>A new object on the heap; the result is its address and the new state.\<close>

definition new_Response :: "'r Response \<Rightarrow> 'r WSSClient \<Rightarrow> addr \<times> 'r WSSClient" where
  "new_Response r wsc =
     (nextAddr wsc, wsc\<lparr>heap := (heap wsc)(nextAddr wsc := r), nextAddr := Suc (nextAddr wsc)\<rparr>)"

section \<open>Connection manager\<close>

definition IsWebSocketClosed :: "'r WSSClient \<Rightarrow> bool" where
  "IsWebSocketClosed wsc = (Conn wsc = None)"

text \<open>
  \<^verbatim>\<open>resetIdleTimer\<close>: the field \<open>idleTimeoutMinutes\<close> is overwritten, with the default
  when it is not positive and with itself times a minute otherwise; a new timer is armed
  with it.
\<close>

definition resetIdleTimer :: "constants \<Rightarrow> 'r WSSClient \<Rightarrow> 'r WSSClient" where
  "resetIdleTimer K wsc =
     (let d = (if idleTimeoutMinutes wsc \<le> 0 then IdleTimeoutMinutes K
               else wrap64 (idleTimeoutMinutes wsc * Minute))
      in wsc\<lparr>idleTimeoutMinutes := d, idleTimer := Some d\<rparr>)"

text \<open>
  \<^verbatim>\<open>NewWSSClient\<close>. The listener for the interrupt signal that it starts is the
  function \<open>osInterrupt\<close> below, run when the signal comes.
\<close>

definition NewWSSClient ::
  "constants \<Rightarrow> string \<Rightarrow> int \<Rightarrow> (string \<times> string) list \<Rightarrow> 'r WSSClient" where
  "NewWSSClient K url idleTimeout signedHeader =
     resetIdleTimer K
       \<lparr>URL = url, Conn = None, idleTimeoutMinutes = idleTimeout, idleTimer = None,
        SignedHeader = signedHeader, Error = [], messageChannel = [], stopChannel = Some 0,
        resultsMap = fmempty, heap = (\<lambda>_. Response_zero), nextAddr = 0, nextChan = 1,
        closedConns = [], closedChans = [], written = []\<rparr>"

text \<open>
  \<^verbatim>\<open>shutdown\<close>, run under the mutex of the client: clear the table, close the stop
  channel and forget it, close the connection and forget it.
\<close>

definition shutdown :: "'r WSSClient \<Rightarrow> 'r WSSClient" where
  "shutdown wsc =
     (let wsc1 = wsc\<lparr>resultsMap := fmempty\<rparr>;
          wsc2 = (case stopChannel wsc1 of
                    None \<Rightarrow> wsc1
                  | Some ch \<Rightarrow> wsc1\<lparr>closedChans := closedChans wsc1 @ [ch], stopChannel := None\<rparr>)
      in (case Conn wsc2 of
            None \<Rightarrow> wsc2
          | Some c \<Rightarrow> wsc2\<lparr>closedConns := closedConns wsc2 @ [c], Conn := None\<rparr>))"

text \<open>
  \<^verbatim>\<open>connect\<close>, with the result of the dial as an argument: the error text or the new
  connection. On success the sender and the receiver are started; their steps are the
  functions of the next sections.
\<close>

definition connect :: "string + nat \<Rightarrow> 'r WSSClient \<Rightarrow> 'r WSSClient" where
  "connect dial wsc =
     (case dial of
        Inl err \<Rightarrow> wsc\<lparr>Error := err\<rparr>
      | Inr conn \<Rightarrow> wsc\<lparr>Conn := Some conn, stopChannel := Some (nextChan wsc),
                        nextChan := Suc (nextChan wsc)\<rparr>)"

definition Connect :: "string + nat \<Rightarrow> 'r WSSClient \<Rightarrow> 'r WSSClient" where
  "Connect dial wsc = (if IsWebSocketClosed wsc then connect dial wsc else wsc)"

text \<open>The callback of the idle timer, and the handler of the interrupt signal.\<close>

definition idleTimeout :: "constants \<Rightarrow> 'r WSSClient \<Rightarrow> 'r WSSClient" where
  "idleTimeout K wsc = resetIdleTimer K (shutdown wsc)"

definition osInterrupt :: "'r WSSClient \<Rightarrow> 'r WSSClient" where
  "osInterrupt wsc = shutdown wsc"

text \<open>
  \<^verbatim>\<open>SendMessage\<close>: two writes to the table, then the frame is handed to the message
  channel.
\<close>

definition SendMessage :: "string \<Rightarrow> Payload \<Rightarrow> 'r WSSClient \<Rightarrow> 'r WSSClient" where
  "SendMessage message payload wsc =
     (let wsc1 = resultsMap_Set ''error'' ENil wsc;
          wsc2 = resultsMap_Set (PayloadRequestID payload) ENil wsc1
      in wsc2\<lparr>messageChannel := messageChannel wsc2 @ [message]\<rparr>)"

section \<open>Sender and receiver\<close>

text \<open>
  One round of a task either goes on to the next round, or returns, or panics. The
  sender and the receiver defer \<^verbatim>\<open>shutdown\<close>, so the state of a task that returned or
  panicked is the one \<^verbatim>\<open>shutdown\<close> left. A panic is not recovered anywhere: it ends
  the process.
\<close>

datatype 'a outcome = Continues 'a | Returns 'a | Panics 'a

text \<open>
  Whether a receive from the stop channel is ready: the channel is closed. A receive
  from a nil channel is never ready.
\<close>

definition stopped :: "'r WSSClient \<Rightarrow> bool" where
  "stopped wsc = (case stopChannel wsc of None \<Rightarrow> False | Some ch \<Rightarrow> ch \<in> set (closedChans wsc))"

text \<open>
  One round of \<^verbatim>\<open>sendMessageAsync\<close>. \<open>stop\<close> says that the select took the stop
  channel; otherwise it took the first frame of the message channel (with no frame
  waiting the task stays blocked). \<open>writeErr\<close> is the result of \<^verbatim>\<open>WriteMessage\<close>.
  The text of an error made by \<^verbatim>\<open>fmt.Errorf\<close> is written out for a message without
  formatting verbs.
\<close>

definition sendMessageAsync_step ::
  "constants \<Rightarrow> bool \<Rightarrow> string option \<Rightarrow> 'r WSSClient \<Rightarrow> 'r WSSClient outcome" where
  "sendMessageAsync_step K stop writeErr wsc =
     (if stop then Returns (shutdown wsc)
      else (case messageChannel wsc of
              [] \<Rightarrow> Continues wsc
            | message # waiting \<Rightarrow>
                (let wsc1 = wsc\<lparr>messageChannel := waiting\<rparr> in
                 if Conn wsc1 = None then
                   Returns (shutdown
                     (resultsMap_Set ''error''
                        (EError ''Could not send message to websocket -> Not connected to WebSocket server'')
                        (wsc1\<lparr>Error := ''Could not send message to websocket -> Not connected to WebSocket server''\<rparr>)))
                 else (case idleTimer wsc1 of
                         None \<Rightarrow> Panics (shutdown wsc1)
                       | Some _ \<Rightarrow>
                           (let wsc2 = wsc1\<lparr>idleTimer := Some (IdleTimeoutMinutes K)\<rparr> in
                            case writeErr of
                              None \<Rightarrow> Continues (wsc2\<lparr>written := written wsc2 @ [message]\<rparr>)
                            | Some err \<Rightarrow>
                                Returns (shutdown
                                  (resultsMap_Set ''error''
                                     (EError (''Could not send message to websocket: '' @ err))
                                     wsc2)))))))"

text \<open>
  The map of fragments the receiver stores into: the entry of the request when it is a
  map already, a new empty map otherwise.
\<close>

definition fragmentsOf :: "'r WSSClient \<Rightarrow> string \<Rightarrow> (string, addr) fmap" where
  "fragmentsOf wsc requestID =
     (case resultsMap_Get wsc requestID of
        Some (EMap m) \<Rightarrow> m
      | _ \<Rightarrow> fmempty)"

text \<open>
  The branch of the receiver for a frame of type DATA: make sure the entry of the request
  is a map of fragments, infer the keys when the fragment is the last one, and store the
  fragment under its sub-batch serial as a string.
\<close>

definition receiveData ::
  "'r json_codec \<Rightarrow> 'r Response \<Rightarrow> string \<Rightarrow> 'r WSSClient \<Rightarrow> 'r WSSClient" where
  "receiveData J response message wsc =
     (let v = fragmentsOf wsc (RequestID response);
          response1 = (if TotalSubBatches response = 0
                          \<or> TotalSubBatches response = SubBatchSerial response
                       then response\<lparr>Keys := extractKeys J message\<rparr> else response);
          (a, wsc1) = new_Response response1 wsc
      in resultsMap_Set (RequestID response)
           (EMap (fmupd (string_of_int (SubBatchSerial response)) a v)) wsc1)"

text \<open>
  What the receiver does with one frame. The field reads \<^verbatim>\<open>response.RequestID\<close> and
  \<^verbatim>\<open>response.MessageType\<close> go through the pointer the decoder filled; on a nil pointer
  they panic.
\<close>

definition receiveMessage ::
  "'r json_codec \<Rightarrow> string \<Rightarrow> 'r WSSClient \<Rightarrow> 'r WSSClient outcome" where
  "receiveMessage J message wsc =
     (case unmarshalResponse J message of
        (Some err, None) \<Rightarrow> Panics (shutdown wsc)
      | (None, None) \<Rightarrow> Panics (shutdown wsc)
      | (err, Some response) \<Rightarrow>
          (let wsc1 = (case err of
                         None \<Rightarrow> wsc
                       | Some e \<Rightarrow> resultsMap_Set (RequestID response)
                                    (EError (''Error parsing JSON: '' @ e)) wsc) in
           if MessageType_String LOG_MESSAGE = MessageType response then
             (case unmarshalLogMessage J message of
                (Some e, _) \<Rightarrow>
                  Continues (resultsMap_Set (RequestID response)
                               (EError (''Error parsing JSON: '' @ e)) wsc1)
              | (None, None) \<Rightarrow> Panics (shutdown wsc1)
              | (None, Some logMessage) \<Rightarrow>
                  (if LogLevel logMessage = ''ERROR''
                   then Continues (resultsMap_Set (RequestID response)
                          (EError (''Log message from server: '' @ LogMessageText logMessage)) wsc1)
                   else Continues wsc1))
           else if MessageType_String DATA = MessageType response then
             Continues (receiveData J response message wsc1)
           else Continues wsc1))"

text \<open>What \<^verbatim>\<open>ReadMessage\<close> gave: an error, or a message, which may be nil.\<close>

datatype read_result = ReadError string | ReadMessage "string option"

definition receiveMessageAsync_step ::
  "'r json_codec \<Rightarrow> read_result \<Rightarrow> 'r WSSClient \<Rightarrow> 'r WSSClient outcome" where
  "receiveMessageAsync_step J rd wsc =
     (if stopped wsc then Returns (shutdown wsc)
      else if Conn wsc = None then
        Returns (shutdown
          (resultsMap_Set ''error''
             (EError ''Could not recieve message from websocket -> Not connected to WebSocket server'')
             (wsc\<lparr>Error := ''Could not receive message from websocket -> Not connected to WebSocket server''\<rparr>)))
      else (case rd of
              ReadError e \<Rightarrow>
                Returns (shutdown
                  (resultsMap_Set ''error''
                     (EError (''Could not read message from websocket -> %!(EXTRA string='' @ e @ '')''))
                     wsc))
            | ReadMessage None \<Rightarrow> Continues wsc
            | ReadMessage (Some message) \<Rightarrow> receiveMessage J message wsc))"

section \<open>The synchronous call\<close>

text \<open>
  The rows gathered by the loop \<^verbatim>\<open>for i := 0; i <= v.Count(); i++\<close>: for each \<open>i\<close>
  in turn, the rows of the fragment stored under \<^verbatim>\<open>string(rune(i))\<close>, if there is one.
\<close>

definition mergeData :: "(string, addr) fmap \<Rightarrow> (addr \<Rightarrow> 'r Response) \<Rightarrow> 'r list" where
  "mergeData v h =
     concat (map (\<lambda>i. case fmlookup v (string_of_rune (rune (int i))) of
                         None \<Rightarrow> []
                       | Some a \<Rightarrow> Data (h a))
                 [0 ..< Suc (Count v)])"

text \<open>
  The fragment the result is written into: the one under the key of the count, or else
  the one under the key of zero.
\<close>

definition finalKey :: "(string, addr) fmap \<Rightarrow> addr option" where
  "finalKey v =
     (case fmlookup v (string_of_rune (rune (int (Count v)))) of
        Some a \<Rightarrow> Some a
      | None \<Rightarrow> fmlookup v (string_of_rune (rune 0)))"

text \<open>
  What a call of \<^verbatim>\<open>GetResponseSync\<close> comes to: \<open>Continue\<close> (only for one round of its
  loop: go round again, with the value of \<open>temp\<close>), \<open>Return\<close> with the pointer to the
  response, the error (\<open>None\<close> for nil) and the state left behind, \<open>Timeout\<close> (a nil
  response and the timeout error), or a panic.
\<close>

datatype 'r sync = Continue "addr option" | Return addr "string option" "'r WSSClient"
  | Timeout | Panic

text \<open>\<^verbatim>\<open>return &messages.Response{}, err\<close>\<close>

definition return_error :: "string \<Rightarrow> 'r WSSClient \<Rightarrow> 'r sync" where
  "return_error err wsc = (case new_Response Response_zero wsc of (a, wsc1) \<Rightarrow> Return a (Some err) wsc1)"

text \<open>
  One round of the default branch of the loop of \<^verbatim>\<open>GetResponseSync\<close>, on the state
  \<open>wsc\<close> of the client at that moment. \<open>temp\<close> is the local variable of that name, nil
  at the start of the call. When \<open>temp\<close> is nil and the map of fragments is not empty,
  \<open>temp\<close> becomes the first item that the iteration over the map delivers; the order of
  that iteration is not fixed, so the key of that item is the argument \<open>first\<close>. A type
  assertion \<^verbatim>\<open>v.(error)\<close> with one result panics on a value that is no error.
\<close>

definition GetResponseSync_poll ::
  "string \<Rightarrow> addr option \<Rightarrow> 'r WSSClient \<Rightarrow> string \<Rightarrow> 'r sync" where
  "GetResponseSync_poll first temp wsc requestID =
     (case resultsMap_Get wsc ''error'' of
        Some (EError e) \<Rightarrow> return_error e wsc
      | Some (EMap m) \<Rightarrow> Panic
      | _ \<Rightarrow>
     (case resultsMap_Get wsc requestID of
        None \<Rightarrow> Continue temp
      | Some (EError e) \<Rightarrow> return_error e wsc
      | Some responses \<Rightarrow>
     (case resultsMap_Get wsc [] of
        Some (EError e) \<Rightarrow> return_error e (resultsMap_Set [] ENil wsc)
      | _ \<Rightarrow>
     (case responses of
        EMap v \<Rightarrow>
          (if Count v > 0 then
             (case (case temp of None \<Rightarrow> fmlookup v first | Some t \<Rightarrow> Some t) of
                None \<Rightarrow> Panic
              | Some t \<Rightarrow>
                  (if length (Data (heap wsc t)) \<le> 0 then
                     return_error ''No response from server. Check SQL syntax'' wsc
                   else if TotalSubBatches (heap wsc t) = 0
                           \<or> TotalSubBatches (heap wsc t) = int (Count v) then
                     (case finalKey v of
                        None \<Rightarrow> Panic
                      | Some finalResponse \<Rightarrow>
                          Return finalResponse None
                            (wsc\<lparr>heap := (heap wsc)
                               (finalResponse := (heap wsc finalResponse)
                                  \<lparr>Data := mergeData v (heap wsc)\<rparr>)\<rparr>))
                   else Continue (Some t)))
           else Continue temp)
      | _ \<Rightarrow> Continue temp))))"

text \<open>
  The loop. The list holds, for each round that runs before the timeout fires, the key
  of the first item of the iteration and the state of the client at that round (the
  sender, the receiver and other callers change the state between rounds). When the list
  is used up the timeout has fired.
\<close>

fun GetResponseSync_loop ::
  "addr option \<Rightarrow> (string \<times> 'r WSSClient) list \<Rightarrow> string \<Rightarrow> 'r sync" where
  "GetResponseSync_loop temp [] requestID = Timeout"
| "GetResponseSync_loop temp ((first, wsc) # rounds) requestID =
     (case GetResponseSync_poll first temp wsc requestID of
        Continue temp1 \<Rightarrow> GetResponseSync_loop temp1 rounds requestID
      | r \<Rightarrow> r)"

definition GetResponseSync :: "(string \<times> 'r WSSClient) list \<Rightarrow> string \<Rightarrow> 'r sync" where
  "GetResponseSync rounds requestID = GetResponseSync_loop None rounds requestID"


text \<open>
  A run of the receiver over DATA frames that arrive one after the other, each given as
  the decoded envelope and the raw bytes.
\<close>

fun receiveFrames ::
  "'r json_codec \<Rightarrow> ('r Response \<times> string) list \<Rightarrow> 'r WSSClient \<Rightarrow> 'r WSSClient" where
  "receiveFrames J [] wsc = wsc"
| "receiveFrames J ((response, message) # later) wsc =
     receiveFrames J later (receiveData J response message wsc)"

text \<open>
  No error waits in the two slots that \<^verbatim>\<open>GetResponseSync\<close> looks at beside the entry of
  the request: the slot \<^verbatim>\<open>"error"\<close> is absent or nil, and the slot \<^verbatim>\<open>""\<close> holds no
  error.
\<close>

definition reserved_slots_clear :: "'r WSSClient \<Rightarrow> bool" where
  "reserved_slots_clear wsc =
     ((case resultsMap_Get wsc ''error'' of None \<Rightarrow> True | Some ENil \<Rightarrow> True | _ \<Rightarrow> False)
      \<and> (case resultsMap_Get wsc [] of Some (EError e) \<Rightarrow> False | _ \<Rightarrow> True))"




section \<open>Values for the examples\<close>

text \<open>
  Package \<^verbatim>\<open>constants\<close> is outside the files at hand; the examples run with a default
  idle window of five minutes. The example client is a new client with the idle window
  \<open>m\<close> given by its caller, connected by a dial that succeeded. An example fragment is a
  DATA envelope with the request id, the sub-batch serial, the total and the rows given.
\<close>

definition example_constants :: constants where
  "example_constants =
     \<lparr>IdleTimeoutMinutes = 5 * Minute, TimeOutWaintForResponse = 60 * 1000000000,
      WssUrl = ''wss://example.invalid''\<rparr>"

definition example_client :: "int \<Rightarrow> nat WSSClient" where
  "example_client m =
     Connect (Inr 7) (NewWSSClient example_constants ''wss://example.invalid'' m [])"

definition example_fragment :: "string \<Rightarrow> int \<Rightarrow> int \<Rightarrow> nat list \<Rightarrow> nat Response" where
  "example_fragment requestID serial declared rows =
     Response_zero\<lparr>MessageType := ''DATA'', RequestID := requestID, SubBatchSerial := serial,
                    TotalSubBatches := declared, Data := rows\<rparr>"

text \<open>
  What \<^verbatim>\<open>encoding/json\<close> gives on the two envelopes of the examples of key extraction:
  the raw elements of the \<^verbatim>\<open>data\<close> array, and a raw message decoded to itself. On a
  frame that is no JSON text at all, such as a lone opening brace, the decoder of an
  envelope returns a syntax error and leaves the pointer nil.
\<close>

definition example_codec :: "'r json_codec" where
  \<open>example_codec =
     \<lparr>unmarshalResponse = (\<lambda>m. (Some ''unexpected end of JSON input'', None)),
      unmarshalLogMessage = (\<lambda>m. (Some ''unexpected end of JSON input'', None)),
      unmarshalData = (\<lambda>m. if m = ''{"data":[{"a":1,"b":"x"}]}''
                             then (None, [''{"a":1,"b":"x"}''])
                             else (None, [])),
      unmarshalRaw = (\<lambda>m. (None, m))\<rparr>\<close>

text \<open>
  The example request \<open>q\<close>, the example client after that request was handed to
  \<^verbatim>\<open>SendMessage\<close>, and that client after the receiver took the DATA frames given.
\<close>

definition example_payload :: Payload where
  "example_payload =
     \<lparr>PayloadMessageType = ''SQL_QUERY'', SQL = ''select 1'', PayloadRequestID = ''q''\<rparr>"

definition example_pending :: "nat WSSClient" where
  "example_pending = SendMessage ''frame'' example_payload (example_client 0)"

definition example_received :: "(nat Response \<times> string) list \<Rightarrow> nat WSSClient" where
  "example_received frames = receiveFrames example_codec frames example_pending"

section \<open>Key extraction: the scan of the code is the scan of the specification\<close>

lemma split_on_no_separator: "c \<notin> set s \<Longrightarrow> split_on c s = [s]"
  by (induction s) auto

lemma split_on_first_separator:
  "c \<notin> set p \<Longrightarrow> split_on c (p @ c # r) = p # split_on c r"
  by (induction p) auto

lemma split_on_not_empty: "split_on c s \<noteq> []"
  by (induction s) auto

lemma hd_split_on: "hd (split_on c s) = takeWhile (\<lambda>x. x \<noteq> c) s"
  by (induction s) auto

lemma IndexByte_None: "IndexByte s c = None \<longleftrightarrow> c \<notin> set s"
  by (simp add: IndexByte_def)

lemma IndexByte_Some:
  assumes "IndexByte s c = Some k"
  shows "k < length s" and "c \<notin> set (take k s)" and "drop k s = c # drop (Suc k) s"
proof -
  let ?P = "\<lambda>x. x \<noteq> c"
  from assms have mem: "c \<in> set s" and k: "k = length (takeWhile ?P s)"
    by (auto simp: IndexByte_def split: if_splits)
  have tk: "take k s = takeWhile ?P s"
    unfolding k by (rule takeWhile_eq_take [symmetric])
  have dr: "drop k s = dropWhile ?P s"
    unfolding k by (rule dropWhile_eq_drop [symmetric])
  from mem have ne: "dropWhile ?P s \<noteq> []" by auto
  then have hdc: "hd (dropWhile ?P s) = c"
    using hd_dropWhile [of ?P s] by simp
  from ne dr show "k < length s" by (metis drop_eq_Nil not_le)
  from tk show "c \<notin> set (take k s)" by (auto dest: set_takeWhileD)
  from ne hdc dr show "drop k s = c # drop (Suc k) s"
    by (metis drop_Suc list.collapse tl_drop)
qed

lemma split_on_drop:
  assumes "IndexByte (drop i s) c = Some k"
  shows "split_on c (drop i s) = take k (drop i s) # split_on c (drop (i + k + 1) s)"
proof -
  from IndexByte_Some [OF assms]
  have a: "c \<notin> set (take k (drop i s))"
    and b: "drop k (drop i s) = c # drop (Suc k) (drop i s)"
    by auto
  have "drop i s = take k (drop i s) @ drop k (drop i s)"
    by (rule append_take_drop_id [symmetric])
  also have "\<dots> = take k (drop i s) @ c # drop (i + k + 1) s"
    using b by (simp add: add.commute)
  finally have "split_on c (drop i s) = split_on c (take k (drop i s) @ c # drop (i + k + 1) s)"
    by simp
  with a show ?thesis by (simp add: split_on_first_separator)
qed

lemma take1_takeWhile:
  "c \<noteq> d \<Longrightarrow> take 1 (takeWhile (\<lambda>x. x \<noteq> d) s) = [c] \<longleftrightarrow> take 1 s = [c]"
  by (cases s) auto

lemma parse_loop_refines:
  "index \<le> length rawData \<Longrightarrow>
   parse_loop rawData index keys = keys @ quoted_keys (split_on dquote (drop index rawData))"
proof (induction rawData index keys rule: parse_loop.induct)
  case (1 rawData index keys)
  show ?case
  proof (cases "index < length rawData")
    case False
    with "1.prems" show ?thesis by (subst parse_loop.simps) simp
  next
    case lt: True
    show ?thesis
    proof (cases "IndexByte (drop index rawData) dquote")
      case None
      then have "split_on dquote (drop index rawData) = [drop index rawData]"
        by (simp add: IndexByte_None split_on_no_separator)
      with lt None show ?thesis by (subst parse_loop.simps) simp
    next
      case (Some keyStart)
      note s1 = split_on_drop [OF Some]
      show ?thesis
      proof (cases "IndexByte (drop (index + keyStart + 1) rawData) dquote")
        case None
        then have "split_on dquote (drop (index + keyStart + 1) rawData)
                   = [drop (index + keyStart + 1) rawData]"
          by (simp add: IndexByte_None split_on_no_separator)
        with lt Some None s1 show ?thesis by (subst parse_loop.simps) simp
      next
        case ke: (Some keyEnd)
        define i1 where "i1 = index + keyStart + 1"
        define i2 where "i2 = i1 + keyEnd + 1"
        from ke have ke': "IndexByte (drop i1 rawData) dquote = Some keyEnd"
          by (simp add: i1_def)
        note s2 = split_on_drop [OF ke']
        from IndexByte_Some [OF ke']
        have len: "keyEnd < length (drop i1 rawData)"
          and dq: "drop keyEnd (drop i1 rawData) = dquote # drop (Suc keyEnd) (drop i1 rawData)"
          by auto
        from len have i2le: "i2 \<le> length rawData" by (simp add: i2_def)
        from dq have dq': "drop (i1 + keyEnd) rawData = dquote # drop i2 rawData"
          by (simp add: i2_def add.commute)
        have key: "slice rawData i1 (i1 + keyEnd) = take keyEnd (drop i1 rawData)"
          by (simp add: slice_def)
        have cond: "(i2 < length rawData
                      \<and> slice rawData (i1 + keyEnd) (i1 + keyEnd + 2) = [dquote, colon])
                    \<longleftrightarrow> take 1 (hd (split_on dquote (drop i2 rawData))) = [colon]"
        proof -
          have a: "slice rawData (i1 + keyEnd) (i1 + keyEnd + 2)
                   = dquote # take 1 (drop i2 rawData)"
            by (simp add: slice_def dq')
          have b: "take 1 (drop i2 rawData) = [colon] \<Longrightarrow> i2 < length rawData"
            by (rule ccontr) simp
          have c: "take 1 (hd (split_on dquote (drop i2 rawData))) = [colon]
                   \<longleftrightarrow> take 1 (drop i2 rawData) = [colon]"
            unfolding hd_split_on by (rule take1_takeWhile) (simp add: colon_def dquote_def)
          show ?thesis unfolding a c using b by auto
        qed
        obtain post more where pm: "split_on dquote (drop i2 rawData) = post # more"
          using split_on_not_empty [of dquote "drop i2 rawData"]
          by (cases "split_on dquote (drop i2 rawData)") auto
        have sp: "split_on dquote (drop index rawData)
                  = take keyStart (drop index rawData) # take keyEnd (drop i1 rawData) # post # more"
          using s1 s2 pm by (simp add: i1_def i2_def)
        have IH: "parse_loop rawData i2 ks = ks @ quoted_keys (split_on dquote (drop i2 rawData))"
          if "ks = (if i2 < length rawData
                        \<and> slice rawData (i1 + keyEnd) (i1 + keyEnd + 2) = [dquote, colon]
                     then keys @ [slice rawData i1 (i1 + keyEnd)] else keys)" for ks
          using "1.IH" [OF lt Some ke] i2le unfolding that i1_def i2_def by simp
        have "parse_loop rawData index keys
              = parse_loop rawData i2
                  (if i2 < length rawData
                        \<and> slice rawData (i1 + keyEnd) (i1 + keyEnd + 2) = [dquote, colon]
                     then keys @ [slice rawData i1 (i1 + keyEnd)] else keys)"
          using lt Some ke by (subst parse_loop.simps) (simp add: i1_def i2_def)
        also have "\<dots> = (if i2 < length rawData
                        \<and> slice rawData (i1 + keyEnd) (i1 + keyEnd + 2) = [dquote, colon]
                     then keys @ [slice rawData i1 (i1 + keyEnd)] else keys)
                     @ quoted_keys (split_on dquote (drop i2 rawData))"
          by (rule IH) simp
        also have "\<dots> = keys @ quoted_keys (split_on dquote (drop index rawData))"
          using cond by (simp add: sp pm key)
        finally show ?thesis .
      qed
    qed
  qed
qed

lemma parse_refines: "parse raw = scan_keys_spec raw"
  using parse_loop_refines [of 0 raw "[]"] by (simp add: parse_def scan_keys_spec_def)

text \<open>
  Claim C2. Key extraction scans the raw bytes of the first element of the \<^verbatim>\<open>data\<close>
  array from left to right, takes the bytes between each pair of double quotes as a
  candidate and keeps a candidate exactly when its closing quote is directly followed by a
  colon: the loop of \<^verbatim>\<open>parse\<close> computes \<open>scan_keys_spec\<close> on every input, and
  \<^verbatim>\<open>extractKeys\<close> applies it to the first raw element that the decoder delivers. On the
  envelope \<^verbatim>\<open>{"data":[{"a":1,"b":"x"}]}\<close> the keys are \<open>a\<close>, \<open>b\<close> in this order; on
  \<^verbatim>\<open>{"data":[]}\<close> there are none.
\<close>

theorem extractKeys_scans_first_element:
  \<open>parse raw = scan_keys_spec raw
   \<and> (unmarshalData J jsonData = (None, first # others) \<and> unmarshalRaw J first = (None, raw)
        \<longrightarrow> extractKeys J jsonData = scan_keys_spec raw)
   \<and> (unmarshalData J jsonData = (None, []) \<longrightarrow> extractKeys J jsonData = [])
   \<and> (unmarshalData J ''{"data":[{"a":1,"b":"x"}]}'' = (None, [''{"a":1,"b":"x"}''])
        \<and> unmarshalRaw J ''{"a":1,"b":"x"}'' = (None, ''{"a":1,"b":"x"}'')
        \<longrightarrow> extractKeys J ''{"data":[{"a":1,"b":"x"}]}'' = [''a'', ''b''])
   \<and> (unmarshalData J ''{"data":[]}'' = (None, []) \<longrightarrow> extractKeys J ''{"data":[]}'' = [])\<close>
proof -
  have ex: \<open>parse ''{"a":1,"b":"x"}'' = [''a'', ''b'']\<close>
    by (simp add: parse_def parse_loop.simps IndexByte_def slice_def dquote_def colon_def)
  show ?thesis
    by (auto simp: extractKeys_def parse_refines ex [unfolded parse_refines])
qed

theorem extractKeys_scans_first_element_witness:
  \<open>extractKeys (example_codec :: nat json_codec) ''{"data":[{"a":1,"b":"x"}]}'' = [''a'', ''b'']
   \<and> extractKeys (example_codec :: nat json_codec) ''{"data":[]}'' = []\<close>
proof -
  let ?J = \<open>example_codec :: nat json_codec\<close>
  have h1: \<open>unmarshalData ?J ''{"data":[{"a":1,"b":"x"}]}'' = (None, [''{"a":1,"b":"x"}''])\<close>
    by (simp add: example_codec_def)
  have h2: \<open>unmarshalRaw ?J ''{"a":1,"b":"x"}'' = (None, ''{"a":1,"b":"x"}'')\<close>
    by (simp add: example_codec_def)
  have h3: \<open>unmarshalData ?J ''{"data":[]}'' = (None, [])\<close>
    by (simp add: example_codec_def)
  from extractKeys_scans_first_element [of raw ?J jsonData "first" others] h1 h2 h3
  show ?thesis by blast
qed

section \<open>Evaluating the examples\<close>

text \<open>The definitions to unfold when a concrete state is evaluated.\<close>

lemmas model_defs = example_client_def example_constants_def example_fragment_def
  example_codec_def example_payload_def example_pending_def example_received_def
  Connect_def connect_def IsWebSocketClosed_def NewWSSClient_def resetIdleTimer_def
  Minute_def wrap64_def SendMessage_def resultsMap_Set_def resultsMap_Get_def
  receiveData_def fragmentsOf_def new_Response_def extractKeys_def Response_zero_def
  string_of_int_def string_of_rune_def rune_def encoderune_def encode3_def RuneError_def
  MaxRune_def GetResponseSync_def GetResponseSync_poll_def return_error_def Count_def
  mergeData_def finalKey_def reserved_slots_clear_def Let_def

section \<open>Connection manager: teardown and the closed test\<close>

lemma shutdown_fields:
  "resultsMap (shutdown wsc) = fmempty"
  "stopChannel (shutdown wsc) = None"
  "Conn (shutdown wsc) = None"
  "closedConns (shutdown wsc)
     = closedConns wsc @ (case Conn wsc of None \<Rightarrow> [] | Some c \<Rightarrow> [c])"
  "closedChans (shutdown wsc)
     = closedChans wsc @ (case stopChannel wsc of None \<Rightarrow> [] | Some ch \<Rightarrow> [ch])"
  by (simp_all add: shutdown_def Let_def split: option.splits)

lemma shutdown_shutdown: "shutdown (shutdown wsc) = shutdown wsc"
  by (simp add: shutdown_def Let_def split: option.splits)

text \<open>
  Claim C8. \<^verbatim>\<open>shutdown\<close> clears the table, closes the stop channel (the signal to
  sender and receiver) and forgets it, closes the connection and forgets it; a second
  call changes nothing: the state after two calls is the state after one, so the
  connection and the stop channel were closed once and the table, cleared by the first
  call, is still empty. \<^verbatim>\<open>shutdown\<close> holds the mutex of the client from its first
  statement to its last, so two calls made at the same time run one after the other,
  in one order or the other.
\<close>

theorem shutdown_idempotent:
  "shutdown (shutdown wsc) = shutdown wsc
   \<and> resultsMap (shutdown wsc) = fmempty
   \<and> stopChannel (shutdown wsc) = None
   \<and> Conn (shutdown wsc) = None
   \<and> closedChans (shutdown (shutdown wsc))
       = closedChans wsc @ (case stopChannel wsc of None \<Rightarrow> [] | Some ch \<Rightarrow> [ch])
   \<and> closedConns (shutdown (shutdown wsc))
       = closedConns wsc @ (case Conn wsc of None \<Rightarrow> [] | Some c \<Rightarrow> [c])"
  by (simp add: shutdown_shutdown shutdown_fields)

theorem shutdown_idempotent_witness:
  "shutdown (shutdown example_pending) = shutdown example_pending
   \<and> resultsMap example_pending \<noteq> fmempty
   \<and> resultsMap (shutdown example_pending) = fmempty
   \<and> stopChannel (shutdown example_pending) = None
   \<and> Conn (shutdown example_pending) = None
   \<and> closedChans (shutdown (shutdown example_pending)) = [1]
   \<and> closedConns (shutdown (shutdown example_pending)) = [7]"
proof -
  have a: "closedChans example_pending = []" "closedConns example_pending = []"
    "stopChannel example_pending = Some 1" "Conn example_pending = Some 7"
    by (simp_all add: model_defs)
  have b: "fmlookup (resultsMap example_pending) ''q'' = Some ENil"
    by (simp add: model_defs)
  then have "resultsMap example_pending \<noteq> fmempty"
    by (metis fmempty_lookup option.distinct(1))
  with shutdown_idempotent [of example_pending] a show ?thesis
    by (simp add: shutdown_fields)
qed

lemma Conn_resetIdleTimer: "Conn (resetIdleTimer K wsc) = Conn wsc"
  by (simp add: resetIdleTimer_def Let_def)

lemma sender_exit_closed:
  "sendMessageAsync_step K stop writeErr wsc = Returns wsc' \<or>
   sendMessageAsync_step K stop writeErr wsc = Panics wsc' \<Longrightarrow> Conn wsc' = None"
  by (auto simp: sendMessageAsync_step_def Let_def shutdown_fields
      split: if_splits list.splits option.splits)

lemma receiveMessage_exit_closed:
  "receiveMessage J message wsc = Returns wsc' \<or>
   receiveMessage J message wsc = Panics wsc' \<Longrightarrow> Conn wsc' = None"
  by (auto simp: receiveMessage_def Let_def shutdown_fields
      split: if_splits prod.splits option.splits)

lemma receiver_exit_closed:
  "receiveMessageAsync_step J rd wsc = Returns wsc' \<or>
   receiveMessageAsync_step J rd wsc = Panics wsc' \<Longrightarrow> Conn wsc' = None"
  using receiveMessage_exit_closed [of J _ wsc wsc']
  by (auto simp: receiveMessageAsync_step_def Let_def shutdown_fields
      split: if_splits read_result.splits option.splits)

text \<open>
  Claim C9. \<^verbatim>\<open>IsWebSocketClosed\<close> is false right after a \<^verbatim>\<open>Connect\<close> whose dial
  succeeded, and true right after each path that tears the connection down: a call of
  \<^verbatim>\<open>shutdown\<close>, the callback of the idle timer, the handler of the interrupt, and the
  end of the sender or of the receiver, by return or by panic.
\<close>

theorem isClosed_after_connect_and_teardown:
  "\<not> IsWebSocketClosed (Connect (Inr conn) wsc)
   \<and> IsWebSocketClosed (shutdown wsc)
   \<and> IsWebSocketClosed (idleTimeout K wsc)
   \<and> IsWebSocketClosed (osInterrupt wsc)
   \<and> (sendMessageAsync_step K stop writeErr wsc = Returns wsc1 \<longrightarrow> IsWebSocketClosed wsc1)
   \<and> (sendMessageAsync_step K stop writeErr wsc = Panics wsc1 \<longrightarrow> IsWebSocketClosed wsc1)
   \<and> (receiveMessageAsync_step J rd wsc = Returns wsc2 \<longrightarrow> IsWebSocketClosed wsc2)
   \<and> (receiveMessageAsync_step J rd wsc = Panics wsc2 \<longrightarrow> IsWebSocketClosed wsc2)"
  using sender_exit_closed [of K stop writeErr wsc wsc1] receiver_exit_closed [of J rd wsc wsc2]
  by (auto simp: IsWebSocketClosed_def Connect_def connect_def idleTimeout_def osInterrupt_def
      Conn_resetIdleTimer shutdown_fields)

theorem isClosed_after_connect_and_teardown_witness:
  "IsWebSocketClosed (NewWSSClient example_constants ''wss://example.invalid'' 0 [] :: nat WSSClient)
   \<and> \<not> IsWebSocketClosed (example_client 0)
   \<and> IsWebSocketClosed (shutdown (example_client 0))
   \<and> IsWebSocketClosed (idleTimeout example_constants (example_client 0))
   \<and> IsWebSocketClosed (osInterrupt (example_client 0))
   \<and> sendMessageAsync_step example_constants True None example_pending
       = Returns (shutdown example_pending)
   \<and> IsWebSocketClosed (shutdown example_pending)
   \<and> receiveMessageAsync_step example_codec (ReadError ''EOF'') example_pending
       = Returns (shutdown example_pending)"
proof -
  let ?new = "NewWSSClient example_constants ''wss://example.invalid'' 0 [] :: nat WSSClient"
  have a: "IsWebSocketClosed ?new" by (simp add: model_defs)
  have b: "example_client 0 = Connect (Inr 7) ?new" by (simp add: example_client_def)
  have c: "sendMessageAsync_step example_constants True None example_pending
           = Returns (shutdown example_pending)"
    by (simp add: sendMessageAsync_step_def shutdown_def model_defs)
  have d: "receiveMessageAsync_step example_codec (ReadError ''EOF'') example_pending
           = Returns (shutdown example_pending)"
    by (simp add: receiveMessageAsync_step_def stopped_def shutdown_def model_defs)
  from isClosed_after_connect_and_teardown
         [of 7 ?new example_constants True None _ example_codec "ReadError ''EOF''"]
       isClosed_after_connect_and_teardown
         [of 7 "example_client 0" example_constants True None _ example_codec
             "ReadError ''EOF''"]
       isClosed_after_connect_and_teardown
         [of 7 example_pending example_constants True None
             "shutdown example_pending" example_codec "ReadError ''EOF''"
             "shutdown example_pending"]
       a b c d
  show ?thesis by simp
qed

text \<open>
  Claim C10. \<^verbatim>\<open>SendMessage\<close> writes nil to the slot \<^verbatim>\<open>"error"\<close> and to the entry
  of the request before it hands the frame to the message channel: in the state that
  holds the frame both are nil, whatever they held before, so an error recorded earlier
  in the slot \<^verbatim>\<open>"error"\<close> is gone. No other entry changes.
\<close>

theorem SendMessage_resets_slots:
  "resultsMap_Get (SendMessage message payload wsc) ''error'' = Some ENil
   \<and> resultsMap_Get (SendMessage message payload wsc) (PayloadRequestID payload) = Some ENil
   \<and> messageChannel (SendMessage message payload wsc) = messageChannel wsc @ [message]
   \<and> (\<forall>k. k \<noteq> ''error'' \<and> k \<noteq> PayloadRequestID payload \<longrightarrow>
          resultsMap_Get (SendMessage message payload wsc) k = resultsMap_Get wsc k)"
  by (simp add: SendMessage_def resultsMap_Set_def resultsMap_Get_def Let_def)

theorem SendMessage_resets_slots_witness:
  "resultsMap_Get (resultsMap_Set ''error'' (EError ''Could not read message'') (example_client 0))
     ''error'' = Some (EError ''Could not read message'')
   \<and> resultsMap_Get
        (SendMessage ''frame'' example_payload
           (resultsMap_Set ''error'' (EError ''Could not read message'') (example_client 0)))
        ''error'' = Some ENil
   \<and> resultsMap_Get
        (SendMessage ''frame'' example_payload
           (resultsMap_Set ''error'' (EError ''Could not read message'') (example_client 0)))
        ''q'' = Some ENil
   \<and> messageChannel
        (SendMessage ''frame'' example_payload
           (resultsMap_Set ''error'' (EError ''Could not read message'') (example_client 0)))
       = [''frame'']"
proof -
  let ?s = "resultsMap_Set ''error'' (EError ''Could not read message'') (example_client 0)"
  have a: "resultsMap_Get ?s ''error'' = Some (EError ''Could not read message'')"
    by (simp add: resultsMap_Set_def resultsMap_Get_def)
  have b: "messageChannel ?s = []" "PayloadRequestID example_payload = ''q''"
    by (simp_all add: model_defs)
  from SendMessage_resets_slots [of "''frame''" example_payload ?s] a b
  show ?thesis by simp
qed

section \<open>Receiver: a frame that does not decode\<close>

text \<open>
  Claim C3 says that a frame whose envelope fails to decode leaves an error in the table
  and the receiver running. The code reads \<^verbatim>\<open>response.RequestID\<close> to record the
  error; when the frame is no JSON text the decoder has left \<^verbatim>\<open>response\<close> nil, the
  read panics, the deferred \<^verbatim>\<open>shutdown\<close> tears the connection down and clears the
  table, and the panic ends the process. The theorem evaluates the receiver at such a
  frame.
\<close>

theorem receiver_panics_on_undecodable_frame:
  assumes "unmarshalResponse J message = (Some err, None)"
    and "\<not> stopped wsc" and "Conn wsc = Some c"
  shows "receiveMessageAsync_step J (ReadMessage (Some message)) wsc = Panics (shutdown wsc)
         \<and> resultsMap (shutdown wsc) = fmempty
         \<and> Conn (shutdown wsc) = None
         \<and> closedConns (shutdown wsc) = closedConns wsc @ [c]"
  using assms
  by (simp add: receiveMessageAsync_step_def receiveMessage_def shutdown_fields)

theorem receiver_panics_on_undecodable_frame_witness:
  "receiveMessageAsync_step example_codec (ReadMessage (Some ''{'')) example_pending
     = Panics (shutdown example_pending)
   \<and> resultsMap (shutdown example_pending) = fmempty
   \<and> Conn (shutdown example_pending) = None
   \<and> closedConns (shutdown example_pending) = [7]"
proof -
  have a: "unmarshalResponse (example_codec :: nat json_codec) ''{''
           = (Some ''unexpected end of JSON input'', None)"
    by (simp add: example_codec_def)
  have b: "\<not> stopped example_pending"
    by (simp add: stopped_def model_defs)
  have c: "Conn example_pending = Some 7"
    by (simp add: model_defs)
  have d: "closedConns example_pending = []"
    by (simp add: model_defs)
  from receiver_panics_on_undecodable_frame [OF a b c] d show ?thesis by simp
qed

text \<open>
  When the decoder reports an error but has filled the envelope (a field of the wrong
  type), the error is recorded under the request id, and the receiver goes on to
  dispatch the same frame: for a frame of type DATA the branch that stores the fragment
  puts a map of fragments in the place of the error just recorded.
\<close>

lemma receiver_replaces_decode_error_by_fragment:
  assumes "unmarshalResponse J message = (Some err, Some response)"
    and "MessageType response = ''DATA''"
  shows "\<exists>wsc1 v. receiveMessage J message wsc = Continues wsc1
           \<and> resultsMap_Get wsc1 (RequestID response) = Some (EMap v)"
  using assms
  by (simp add: receiveMessage_def receiveData_def new_Response_def resultsMap_Set_def
      resultsMap_Get_def Let_def)

section \<open>Sender: the idle timer\<close>

lemma NewWSSClient_timer:
  assumes "0 < m" and "m * Minute < 2 ^ 63"
  shows "idleTimer (NewWSSClient K url m h) = Some (m * Minute)"
    and "idleTimeoutMinutes (NewWSSClient K url m h) = m * Minute"
proof -
  have "0 \<le> m * Minute" using assms(1) by (simp add: Minute_def)
  then have "wrap64 (m * Minute) = m * Minute"
    using assms(2) by (simp add: wrap64_def)
  with assms(1) show "idleTimer (NewWSSClient K url m h) = Some (m * Minute)"
    and "idleTimeoutMinutes (NewWSSClient K url m h) = m * Minute"
    by (simp_all add: NewWSSClient_def resetIdleTimer_def Let_def)
qed

text \<open>
  Claim C4 says that a successful write resets the idle timer to the window the caller
  configured. The sender resets the timer, before the write, to the constant
  \<^verbatim>\<open>constants.IdleTimeoutMinutes\<close>, whatever the field \<open>idleTimeoutMinutes\<close> holds;
  \<^verbatim>\<open>resetIdleTimer\<close>, used when the client is made and when the timer fires, arms the
  timer with the configured window. The theorem evaluates one round of the sender with
  a successful write.
\<close>

theorem sender_resets_timer_to_default:
  assumes "Conn wsc = Some c" and "idleTimer wsc = Some d"
    and "messageChannel wsc = message # waiting"
  shows "sendMessageAsync_step K False None wsc
         = Continues (wsc\<lparr>messageChannel := waiting, idleTimer := Some (IdleTimeoutMinutes K),
                          written := written wsc @ [message]\<rparr>)"
  using assms by (simp add: sendMessageAsync_step_def)

theorem sender_resets_timer_to_default_witness:
  "idleTimeoutMinutes (example_client 7) = 7 * Minute
   \<and> idleTimer (example_client 7) = Some (7 * Minute)
   \<and> sendMessageAsync_step example_constants False None
        (SendMessage ''frame'' example_payload (example_client 7))
      = Continues ((SendMessage ''frame'' example_payload (example_client 7))
                   \<lparr>messageChannel := [], idleTimer := Some (5 * Minute),
                     written := [''frame'']\<rparr>)"
proof -
  let ?s = "SendMessage ''frame'' example_payload (example_client 7)"
  have a: "Conn ?s = Some 7" by (simp add: model_defs)
  have b: "idleTimer ?s = Some (7 * Minute)" by (simp add: model_defs)
  have c: "messageChannel ?s = ''frame'' # []" by (simp add: model_defs)
  have d: "written ?s = []" by (simp add: model_defs)
  have e: "idleTimeoutMinutes (example_client 7) = 7 * Minute"
    "idleTimer (example_client 7) = Some (7 * Minute)" by (simp_all add: model_defs)
  from sender_resets_timer_to_default [OF a b c, of example_constants] d e
  show ?thesis by (simp add: example_constants_def)
qed

section \<open>The synchronous call: one round on a map of fragments\<close>

















section \<open>Integers as strings: distinct numbers up to 0xD800 give distinct keys\<close>
















section \<open>Fragments stored in any order merge in the order of their serials\<close>









text \<open>The numbers 0xD800 and 0xD801 are surrogate halves: both give the key of U+FFFD.\<close>

lemma surrogate_keys_collide: "string_of_int 55296 = string_of_int 55297"
  by (simp add: string_of_int_def rune_def encoderune_def MaxRune_def)





end
